theory Spec2Isabelle
  imports Complex_Main
begin

section \<open>Data model of \<open>src/ShaderUp.ts\<close>\<close>

text \<open>
  The class \<open>ShaderUp\<close> talks to two collaborators it does not own: the page (canvas lookup,
  animation frames, resize observation, console) and the WebGL context. Both are made
  explicit. What the host answers to a query is a parameter (\<open>env\<close>); every command the
  class sends to the host is an \<open>effect\<close> appended to a trace, in program order; an
  exception is a value \<open>Inl err\<close> returned together with the trace of what had already
  been done when it was thrown.
\<close>

datatype UniformType = Float | Vec2 | Vec3 | Vec4 | IntType | Sampler2D

datatype RenderMode = Fullscreen | Instanced

datatype AttribType = FLOAT | UNSIGNED_BYTE

text \<open>A JavaScript \<open>number\<close>, idealised: a real or \<open>NaN\<close>.\<close>

datatype number = Num real | NaN

text \<open>What the untyped value-bag \<open>uniforms\<close> may hold.\<close>

datatype jsvalue = Undefined | Null | Number number | Array "jsvalue list"

record AttributeOptions =
  attr_size :: nat
  attr_type :: "AttribType option"
  attr_instanced :: "bool option"

record HTMLCanvasElement =
  clientWidth :: nat
  clientHeight :: nat
  width :: nat
  height :: nat

text \<open>
  \<open>ShaderUpOptions\<close>. An object literal with string keys is the list of its entries in
  enumeration order. The resize callback is caller code: the options say whether one is
  given, and each call of it is an effect.
\<close>

record ShaderUpOptions =
  opt_renderMode :: "RenderMode option"
  opt_canvasId :: "string option"
  opt_canvas :: "HTMLCanvasElement option"
  opt_fragmentShader :: string
  opt_vertexShader :: "string option"
  opt_uniforms :: "(string \<times> UniformType) list option"
  opt_attributes :: "(string \<times> AttributeOptions) list option"
  opt_numInstances :: "number option"
  opt_onResize :: bool

type_synonym handle = nat
type_synonym location = nat

datatype context_kind = WebGL1 | WebGL2

datatype shader_kind = VERTEX_SHADER | FRAGMENT_SHADER

datatype source = Text string | DefaultInstancedVertexShader | DefaultFullscreenVertexShader

datatype usage = STATIC_DRAW | DYNAMIC_DRAW

datatype image = Image nat

datatype primitive = TRIANGLES

record UniformInfo =
  u_location :: location
  u_type :: UniformType
  textureUnit :: "nat option"

datatype error =
    NumInstancesRequired
  | AttributesRequired
  | CanvasNotFound string
  | NoCanvasElement
  | WebGL2Required
  | WebGLNotSupported
  | UnableToCreateShader
  | ShaderCompilationFailed string
  | UnableToCreateProgram
  | ProgramLinkingFailed string

datatype warning =
    UniformNotFound string
  | AttributeNotFound string
  | NotASampler string
  | ContextLostWarning

datatype glcall =
    CreateShader shader_kind "handle option"
  | ShaderSource handle source
  | CompileShader handle
  | DeleteShader handle
  | CreateProgram "handle option"
  | AttachShader handle handle
  | LinkProgram handle
  | DeleteProgram handle
  | CreateBuffer handle
  | BindBuffer "handle option"
  | BufferData "real list" usage
  | DeleteBuffer handle
  | EnableVertexAttribArray int
  | VertexAttribPointer int nat AttribType bool nat nat
  | VertexAttribDivisor int nat
  | UseProgram handle
  | Uniform1f location jsvalue
  | Uniform2f location jsvalue jsvalue
  | Uniform3f location jsvalue jsvalue jsvalue
  | Uniform4f location jsvalue jsvalue jsvalue jsvalue
  | Uniform1i location jsvalue
  | DrawArrays primitive nat nat
  | DrawArraysInstanced primitive nat nat number
  | Viewport nat nat nat nat
  | CreateTexture handle
  | ActiveTexture nat
  | BindTexture handle
  | TexParameteri string string
  | TexImage2D image
  | DeleteTexture handle

datatype effect =
    GL glcall
  | GetContext string
  | AddEventListener string
  | RemoveEventListener string
  | NewResizeObserver
  | Observe
  | Disconnect
  | Warn warning
  | Log string
  | PreventDefault
  | RequestAnimationFrame nat
  | CancelAnimationFrame nat
  | OnResize nat nat

text \<open>
  The answers of the host. \<open>env_getAttribLocation\<close> gives \<open>-1\<close> for a name the linked
  program does not have, \<open>env_getUniformLocation\<close> gives \<open>None\<close> (JavaScript \<open>null\<close>).
\<close>

record env =
  env_getElementById :: "string \<Rightarrow> HTMLCanvasElement option"
  env_querySelector :: "HTMLCanvasElement option"
  env_webgl2 :: bool
  env_webgl :: bool
  env_createShader :: "shader_kind \<Rightarrow> bool"
  env_compiles :: "shader_kind \<Rightarrow> source \<Rightarrow> bool"
  env_shaderInfoLog :: "shader_kind \<Rightarrow> source \<Rightarrow> string"
  env_createProgram :: bool
  env_links :: "source \<Rightarrow> source \<Rightarrow> bool"
  env_programInfoLog :: "source \<Rightarrow> source \<Rightarrow> string"
  env_getUniformLocation :: "string \<Rightarrow> location option"
  env_getAttribLocation :: "string \<Rightarrow> int"
  env_drawingBufferSize :: "nat \<Rightarrow> nat \<Rightarrow> nat \<times> nat"

text \<open>
  The fields of a \<open>ShaderUp\<close> instance, under the names of the class, followed by the part
  of the page's state that belongs to the instance: whether its two context listeners are
  attached, the animation-frame callbacks it has scheduled and that are still pending, the
  page's counter of animation-frame request ids, and the number of WebGL objects created
  so far (the next fresh handle).
\<close>

record ShaderUp =
  canvas :: HTMLCanvasElement
  gl :: context_kind
  uniforms :: "string \<Rightarrow> jsvalue"
  renderMode :: RenderMode
  attributeOptions :: "(string \<times> AttributeOptions) list option"
  numInstances :: number
  program :: "handle option"
  animationFrameId :: "nat option"
  resizeObserver :: bool
  isDestroyed :: bool
  uniformInfo :: "(string \<times> UniformInfo) list"
  textures :: "(nat \<times> handle) list"
  instanceBuffer :: "handle option"
  timeLocation :: "location option"
  resolutionLocation :: "location option"
  host_onResize :: bool
  host_listeners :: bool
  host_pending :: "nat list"
  host_rafCounter :: nat
  host_fresh :: nat

section \<open>JavaScript conventions\<close>

fun truthy_number :: "number option \<Rightarrow> bool" where
  "truthy_number None = False"
| "truthy_number (Some NaN) = False"
| "truthy_number (Some (Num x)) = (x \<noteq> 0)"

fun truthy_string :: "string option \<Rightarrow> bool" where
  "truthy_string None = False"
| "truthy_string (Some s) = (s \<noteq> [])"

fun truthy_id :: "nat option \<Rightarrow> bool" where
  "truthy_id None = False"
| "truthy_id (Some n) = (n \<noteq> 0)"

fun truthy_bool :: "bool option \<Rightarrow> bool" where
  "truthy_bool None = False"
| "truthy_bool (Some b) = b"

text \<open>\<open>value[i]\<close> on a value that is neither \<open>null\<close> nor \<open>undefined\<close>.\<close>

fun index :: "jsvalue \<Rightarrow> nat \<Rightarrow> jsvalue" where
  "index (Array xs) i = (if i < length xs then xs ! i else Undefined)"
| "index v i = Undefined"

text \<open>\<open>Map.prototype.set\<close> on a map kept in insertion order.\<close>

fun map_set :: "'k \<Rightarrow> 'v \<Rightarrow> ('k \<times> 'v) list \<Rightarrow> ('k \<times> 'v) list" where
  "map_set k v [] = [(k, v)]"
| "map_set k v ((k', v') # kvs) =
     (if k' = k then (k, v) # kvs else (k', v') # map_set k v kvs)"

section \<open>Host facilities\<close>

text \<open>
  \<open>requestAnimationFrame\<close>: the page hands out the next request id (ids start at 1) and
  queues the callback. \<open>cancelAnimationFrame\<close> takes the callback out of the queue.
\<close>

definition requestAnimationFrame :: "ShaderUp \<Rightarrow> nat \<times> ShaderUp" where
  "requestAnimationFrame s =
     (let n = Suc (host_rafCounter s)
      in (n, s\<lparr>host_pending := host_pending s @ [n], host_rafCounter := n\<rparr>))"

definition cancelAnimationFrame :: "nat \<Rightarrow> ShaderUp \<Rightarrow> ShaderUp" where
  "cancelAnimationFrame n s = s\<lparr>host_pending := removeAll n (host_pending s)\<rparr>"

section \<open>The methods of the class\<close>

text \<open>\<open>getDefaultUniformValue\<close>, lines 395-405.\<close>

fun getDefaultUniformValue :: "UniformType \<Rightarrow> jsvalue" where
  "getDefaultUniformValue Float = Number (Num 0)"
| "getDefaultUniformValue Vec2 = Array [Number (Num 0), Number (Num 0)]"
| "getDefaultUniformValue Vec3 = Array [Number (Num 0), Number (Num 0), Number (Num 0)]"
| "getDefaultUniformValue Vec4 =
     Array [Number (Num 0), Number (Num 0), Number (Num 0), Number (Num 0)]"
| "getDefaultUniformValue IntType = Number (Num 0)"
| "getDefaultUniformValue Sampler2D = Null"

text \<open>\<open>getDefaultVertexShader\<close>, lines 407-444; the two GLSL texts are named, not spelled.\<close>

definition getDefaultVertexShader :: "ShaderUp \<Rightarrow> source" where
  "getDefaultVertexShader s =
     (if renderMode s = Instanced then DefaultInstancedVertexShader
      else DefaultFullscreenVertexShader)"

text \<open>\<open>createShader\<close>, lines 446-459.\<close>

definition createShader ::
  "env \<Rightarrow> shader_kind \<Rightarrow> source \<Rightarrow> ShaderUp \<Rightarrow> effect list \<times> (error + handle \<times> ShaderUp)" where
  "createShader e k src s =
     (if \<not> env_createShader e k then ([GL (CreateShader k None)], Inl UnableToCreateShader)
      else
        let shader = host_fresh s;
            s' = s\<lparr>host_fresh := Suc shader\<rparr>;
            tr = [GL (CreateShader k (Some shader)), GL (ShaderSource shader src),
                  GL (CompileShader shader)]
        in if \<not> env_compiles e k src
           then (tr @ [GL (DeleteShader shader)],
                 Inl (ShaderCompilationFailed (env_shaderInfoLog e k src)))
           else (tr, Inr (shader, s')))"

text \<open>\<open>createProgram\<close>, lines 461-475.\<close>

definition createProgram ::
  "env \<Rightarrow> source \<Rightarrow> source \<Rightarrow> handle \<Rightarrow> handle \<Rightarrow> ShaderUp
     \<Rightarrow> effect list \<times> (error + handle \<times> ShaderUp)" where
  "createProgram e vsrc fsrc vs fs s =
     (if \<not> env_createProgram e then ([GL (CreateProgram None)], Inl UnableToCreateProgram)
      else
        let prog = host_fresh s;
            s' = s\<lparr>host_fresh := Suc prog\<rparr>;
            tr = [GL (CreateProgram (Some prog)), GL (AttachShader prog vs),
                  GL (AttachShader prog fs), GL (LinkProgram prog)]
        in if \<not> env_links e vsrc fsrc
           then (tr @ [GL (DeleteProgram prog)],
                 Inl (ProgramLinkingFailed (env_programInfoLog e vsrc fsrc)))
           else (tr, Inr (prog, s')))"

text \<open>\<open>handleResize\<close>, lines 477-488.\<close>

definition handleResize :: "env \<Rightarrow> bool \<Rightarrow> ShaderUp \<Rightarrow> effect list \<times> ShaderUp" where
  "handleResize e callback s =
     (let displayWidth = clientWidth (canvas s);
          displayHeight = clientHeight (canvas s)
      in if width (canvas s) \<noteq> displayWidth \<or> height (canvas s) \<noteq> displayHeight
         then
           let c' = (canvas s)\<lparr>width := displayWidth, height := displayHeight\<rparr>;
               db = env_drawingBufferSize e (width c') (height c')
           in (GL (Viewport 0 0 (fst db) (snd db))
                 # (if callback then [OnResize displayWidth displayHeight] else []),
               s\<lparr>canvas := c'\<rparr>)
         else ([], s))"

text \<open>\<open>initFullscreenResources\<close>, lines 217-229.\<close>

definition initFullscreenResources :: "env \<Rightarrow> ShaderUp \<Rightarrow> effect list \<times> ShaderUp" where
  "initFullscreenResources e s =
     (case program s of
        None \<Rightarrow> ([], s)
      | Some prog \<Rightarrow>
          let positionBuffer = host_fresh s;
              positionLoc = env_getAttribLocation e ''a_position''
          in ([GL (CreateBuffer positionBuffer), GL (BindBuffer (Some positionBuffer)),
               GL (BufferData [-1, -1, 3, -1, -1, 3] STATIC_DRAW),
               GL (EnableVertexAttribArray positionLoc),
               GL (VertexAttribPointer positionLoc 2 FLOAT False 0 0)],
              s\<lparr>host_fresh := Suc positionBuffer\<rparr>))"

text \<open>The first loop of \<open>initInstancedResources\<close>, lines 250-255.\<close>

fun calcStride :: "(string \<times> AttributeOptions) list \<Rightarrow> nat \<Rightarrow> nat" where
  "calcStride [] stride = stride"
| "calcStride ((name, opts) # rest) stride = calcStride rest (stride + attr_size opts * 4)"

text \<open>
  The second loop of \<open>initInstancedResources\<close>, lines 257-276. The \<open>continue\<close> of line 263
  goes to the next name with \<open>offset\<close> as it is.
\<close>

fun setupAttributes ::
  "env \<Rightarrow> (string \<times> AttributeOptions) list \<Rightarrow> nat \<Rightarrow> nat \<Rightarrow> effect list" where
  "setupAttributes e [] stride offset = []"
| "setupAttributes e ((name, opts) # rest) stride offset =
     (let loc = env_getAttribLocation e name
      in if loc = -1
         then Warn (AttributeNotFound name) # setupAttributes e rest stride offset
         else [GL (EnableVertexAttribArray loc),
               GL (VertexAttribPointer loc (attr_size opts) FLOAT False stride offset)]
              @ (if truthy_bool (attr_instanced opts) then [GL (VertexAttribDivisor loc 1)]
                 else [])
              @ setupAttributes e rest stride (offset + attr_size opts * 4))"

text \<open>\<open>initInstancedResources\<close>, lines 231-277.\<close>

definition initInstancedResources :: "env \<Rightarrow> ShaderUp \<Rightarrow> effect list \<times> ShaderUp" where
  "initInstancedResources e s =
     (case (program s, attributeOptions s) of
        (Some prog, Some attrs) \<Rightarrow>
          let quadBuffer = host_fresh s;
              quadLoc = env_getAttribLocation e ''a_quadVertex'';
              buf = Suc quadBuffer;
              stride = calcStride attrs 0
          in ([GL (CreateBuffer quadBuffer), GL (BindBuffer (Some quadBuffer)),
               GL (BufferData [0, 0, 1, 0, 0, 1, 0, 1, 1, 0, 1, 1] STATIC_DRAW),
               GL (EnableVertexAttribArray quadLoc),
               GL (VertexAttribPointer quadLoc 2 FLOAT False 0 0),
               GL (CreateBuffer buf), GL (BindBuffer (Some buf))]
              @ setupAttributes e attrs stride 0,
              s\<lparr>instanceBuffer := Some buf, host_fresh := Suc buf\<rparr>)
      | _ \<Rightarrow> ([], s))"

text \<open>
  The loop over the declared uniforms in \<open>initResources\<close>, lines 195-210;
  \<open>texUnitCount\<close> is the loop's counter.
\<close>

fun registerUniforms ::
  "env \<Rightarrow> (string \<times> UniformType) list \<Rightarrow> nat \<Rightarrow> ShaderUp \<Rightarrow> effect list \<times> ShaderUp" where
  "registerUniforms e [] texUnitCount s = ([], s)"
| "registerUniforms e ((name, ty) # rest) texUnitCount s =
     (case env_getUniformLocation e name of
        None \<Rightarrow>
          (case registerUniforms e rest texUnitCount s of
             (tr, s') \<Rightarrow> (Warn (UniformNotFound name) # tr, s'))
      | Some loc \<Rightarrow>
          let info = \<lparr>u_location = loc, u_type = ty,
                      textureUnit = (if ty = Sampler2D then Some texUnitCount else None)\<rparr>;
              texUnitCount' = (if ty = Sampler2D then Suc texUnitCount else texUnitCount)
          in registerUniforms e rest texUnitCount'
               (s\<lparr>uniformInfo := map_set name info (uniformInfo s),
                  uniforms := (uniforms s)(name := getDefaultUniformValue ty)\<rparr>))"

text \<open>The block "Process Custom Uniforms" of \<open>initResources\<close>, lines 193-211.\<close>

definition processCustomUniforms ::
  "env \<Rightarrow> ShaderUpOptions \<Rightarrow> ShaderUp \<Rightarrow> effect list \<times> ShaderUp" where
  "processCustomUniforms e options s =
     (case opt_uniforms options of
        None \<Rightarrow> ([], s)
      | Some us \<Rightarrow> registerUniforms e us 0 s)"

text \<open>\<open>initResources\<close>, lines 169-215.\<close>

definition initResources ::
  "env \<Rightarrow> ShaderUpOptions \<Rightarrow> ShaderUp \<Rightarrow> effect list \<times> (error + ShaderUp)" where
  "initResources e options s =
     (let vsSource = (if truthy_string (opt_vertexShader options)
                      then Text (the (opt_vertexShader options))
                      else getDefaultVertexShader s);
          fsSource = Text (opt_fragmentShader options)
      in case createShader e VERTEX_SHADER vsSource s of
           (tr1, Inl err) \<Rightarrow> (tr1, Inl err)
         | (tr1, Inr (vertexShader, s1)) \<Rightarrow>
        (case createShader e FRAGMENT_SHADER fsSource s1 of
           (tr2, Inl err) \<Rightarrow> (tr1 @ tr2, Inl err)
         | (tr2, Inr (fragmentShader, s2)) \<Rightarrow>
        (case createProgram e vsSource fsSource vertexShader fragmentShader s2 of
           (tr3, Inl err) \<Rightarrow> (tr1 @ tr2 @ tr3, Inl err)
         | (tr3, Inr (prog, s3)) \<Rightarrow>
        (let s4 = s3\<lparr>program := Some prog\<rparr>;
             tr4 = [GL (DeleteShader vertexShader), GL (DeleteShader fragmentShader)];
             (tr5, s5) = (if renderMode s4 = Fullscreen then initFullscreenResources e s4
                          else initInstancedResources e s4);
             s6 = s5\<lparr>timeLocation := env_getUniformLocation e ''u_time'',
                     resolutionLocation := env_getUniformLocation e ''u_resolution''\<rparr>;
             (tr7, s7) = processCustomUniforms e options s6;
             (tr8, s8) = handleResize e (opt_onResize options) s7
         in (tr1 @ tr2 @ tr3 @ tr4 @ tr5 @ tr7 @ tr8, Inr s8)))))"

text \<open>The validation of the options for instanced mode, lines 99-113 of the constructor.\<close>

definition validateOptions ::
  "ShaderUpOptions \<Rightarrow> error + RenderMode \<times> number \<times> (string \<times> AttributeOptions) list option"
  where
  "validateOptions options =
     (let mode = (case opt_renderMode options of Some m \<Rightarrow> m | None \<Rightarrow> Fullscreen)
      in if mode = Instanced
         then if \<not> truthy_number (opt_numInstances options) then Inl NumInstancesRequired
              else if opt_attributes options = None then Inl AttributesRequired
              else Inr (mode, the (opt_numInstances options), opt_attributes options)
         else Inr (mode, Num 0, None))"

text \<open>Step 1 of the constructor, lines 116-126.\<close>

definition resolveCanvas :: "env \<Rightarrow> ShaderUpOptions \<Rightarrow> error + HTMLCanvasElement" where
  "resolveCanvas e options =
     (case opt_canvas options of
        Some c \<Rightarrow> Inr c
      | None \<Rightarrow>
          if truthy_string (opt_canvasId options)
          then (case env_getElementById e (the (opt_canvasId options)) of
                  None \<Rightarrow> Inl (CanvasNotFound (the (opt_canvasId options)))
                | Some el \<Rightarrow> Inr el)
          else (case env_querySelector e of
                  None \<Rightarrow> Inl NoCanvasElement
                | Some el \<Rightarrow> Inr el))"

text \<open>Step 2 of the constructor, lines 129-147.\<close>

definition initContext :: "env \<Rightarrow> RenderMode \<Rightarrow> effect list \<times> (error + context_kind)" where
  "initContext e mode =
     (if mode = Instanced
      then (if env_webgl2 e then ([GetContext ''webgl2''], Inr WebGL2)
            else ([GetContext ''webgl2''], Inl WebGL2Required))
      else (if env_webgl2 e then ([GetContext ''webgl2''], Inr WebGL2)
            else if env_webgl e then ([GetContext ''webgl2'', GetContext ''webgl''], Inr WebGL1)
            else ([GetContext ''webgl2'', GetContext ''webgl''], Inl WebGLNotSupported)))"

text \<open>
  The instance as the field initialisers of lines 70-88 and the assignments of lines
  99-147 leave it, before any call on the context.
\<close>

definition newInstance ::
  "ShaderUpOptions \<Rightarrow> RenderMode \<Rightarrow> number \<Rightarrow> (string \<times> AttributeOptions) list option
     \<Rightarrow> HTMLCanvasElement \<Rightarrow> context_kind \<Rightarrow> ShaderUp" where
  "newInstance options mode n attrs cv ctx =
     \<lparr>canvas = cv, gl = ctx, uniforms = (\<lambda>name. Undefined), renderMode = mode,
      attributeOptions = attrs, numInstances = n, program = None,
      animationFrameId = None, resizeObserver = False, isDestroyed = False,
      uniformInfo = [], textures = [], instanceBuffer = None, timeLocation = None,
      resolutionLocation = None, host_onResize = opt_onResize options,
      host_listeners = False, host_pending = [], host_rafCounter = 0, host_fresh = 0\<rparr>"

text \<open>The constructor, lines 98-163.\<close>

definition constructor :: "env \<Rightarrow> ShaderUpOptions \<Rightarrow> effect list \<times> (error + ShaderUp)" where
  "constructor e options =
     (case validateOptions options of
        Inl err \<Rightarrow> ([], Inl err)
      | Inr (mode, n, attrs) \<Rightarrow>
     (case resolveCanvas e options of
        Inl err \<Rightarrow> ([], Inl err)
      | Inr cv \<Rightarrow>
     (case initContext e mode of
        (tr1, Inl err) \<Rightarrow> (tr1, Inl err)
      | (tr1, Inr ctx) \<Rightarrow>
     (let s0 = newInstance options mode n attrs cv ctx;
          tr2 = [AddEventListener ''webglcontextlost'',
                 AddEventListener ''webglcontextrestored''];
          s1 = s0\<lparr>host_listeners := True\<rparr>
      in case initResources e options s1 of
           (tr3, Inl err) \<Rightarrow> (tr1 @ tr2 @ tr3, Inl err)
         | (tr3, Inr s2) \<Rightarrow>
             (tr1 @ tr2 @ tr3 @ [NewResizeObserver, Observe],
              Inr (s2\<lparr>resizeObserver := True\<rparr>))))))"

text \<open>\<open>setData\<close>, lines 283-289.\<close>

definition setData :: "real list \<Rightarrow> ShaderUp \<Rightarrow> effect list \<times> ShaderUp" where
  "setData data s =
     (if renderMode s \<noteq> Instanced \<or> isDestroyed s then ([], s)
      else ([GL (BindBuffer (instanceBuffer s)), GL (BufferData data DYNAMIC_DRAW)], s))"

text \<open>\<open>setTexture\<close>, lines 297-325.\<close>

definition setTexture :: "string \<Rightarrow> image \<Rightarrow> ShaderUp \<Rightarrow> effect list \<times> ShaderUp" where
  "setTexture name img s =
     (if isDestroyed s then ([], s)
      else case map_of (uniformInfo s) name of
        None \<Rightarrow> ([Warn (NotASampler name)], s)
      | Some info \<Rightarrow>
          if u_type info \<noteq> Sampler2D \<or> textureUnit info = None
          then ([Warn (NotASampler name)], s)
          else
            let unit = the (textureUnit info);
                (tr, texture, s') =
                  (case map_of (textures s) unit of
                     Some t \<Rightarrow> ([], t, s)
                   | None \<Rightarrow>
                       ([GL (CreateTexture (host_fresh s))], host_fresh s,
                        s\<lparr>textures := map_set unit (host_fresh s) (textures s),
                          host_fresh := Suc (host_fresh s)\<rparr>))
            in (tr @ [GL (ActiveTexture unit), GL (BindTexture texture),
                      GL (TexParameteri ''TEXTURE_WRAP_S'' ''CLAMP_TO_EDGE''),
                      GL (TexParameteri ''TEXTURE_WRAP_T'' ''CLAMP_TO_EDGE''),
                      GL (TexParameteri ''TEXTURE_MIN_FILTER'' ''LINEAR''),
                      GL (TexParameteri ''TEXTURE_MAG_FILTER'' ''LINEAR''),
                      GL (TexImage2D img)],
                s'))"

text \<open>\<open>start\<close>, lines 330-334.\<close>

definition start :: "ShaderUp \<Rightarrow> effect list \<times> ShaderUp" where
  "start s =
     (if \<not> truthy_id (animationFrameId s) \<and> \<not> isDestroyed s
      then case requestAnimationFrame s of
             (n, s') \<Rightarrow> ([RequestAnimationFrame n], s'\<lparr>animationFrameId := Some n\<rparr>)
      else ([], s))"

text \<open>\<open>stop\<close>, lines 339-344.\<close>

definition stop :: "ShaderUp \<Rightarrow> effect list \<times> ShaderUp" where
  "stop s =
     (if truthy_id (animationFrameId s)
      then ([CancelAnimationFrame (the (animationFrameId s))],
            (cancelAnimationFrame (the (animationFrameId s)) s)\<lparr>animationFrameId := None\<rparr>)
      else ([], s))"

text \<open>\<open>dispose\<close>, lines 350-379.\<close>

definition dispose :: "ShaderUp \<Rightarrow> effect list \<times> ShaderUp" where
  "dispose s =
     (case stop s of (tr1, s1) \<Rightarrow>
        let s2 = s1\<lparr>isDestroyed := True\<rparr>;
            tr3 = (if resizeObserver s2 then [Disconnect] else []);
            s3 = s2\<lparr>resizeObserver := False\<rparr>;
            tr4 = [RemoveEventListener ''webglcontextlost'',
                   RemoveEventListener ''webglcontextrestored''];
            s4 = s3\<lparr>host_listeners := False\<rparr>;
            tr5 = map (\<lambda>(unit, tex). GL (DeleteTexture tex)) (textures s4);
            s5 = s4\<lparr>textures := []\<rparr>;
            tr6 = (case instanceBuffer s5 of None \<Rightarrow> [] | Some b \<Rightarrow> [GL (DeleteBuffer b)]);
            s6 = s5\<lparr>instanceBuffer := None\<rparr>;
            tr7 = (case program s6 of None \<Rightarrow> [] | Some p \<Rightarrow> [GL (DeleteProgram p)]);
            s7 = s6\<lparr>program := None\<rparr>
        in (tr1 @ tr3 @ tr4 @ tr5 @ tr6 @ tr7, s7))"

text \<open>\<open>handleContextLost\<close> and \<open>handleContextRestored\<close>, lines 383-393.\<close>

definition handleContextLost :: "ShaderUp \<Rightarrow> effect list \<times> ShaderUp" where
  "handleContextLost s =
     (case stop s of (tr, s') \<Rightarrow> (PreventDefault # tr @ [Warn ContextLostWarning], s'))"

definition handleContextRestored :: "ShaderUp \<Rightarrow> effect list \<times> ShaderUp" where
  "handleContextRestored s = ([Log ''Context Restored - Re-initializing...''], s)"

text \<open>One turn of the loop over \<open>uniformInfo\<close> in \<open>render\<close>, lines 501-517.\<close>

definition uploadUniform :: "(string \<Rightarrow> jsvalue) \<Rightarrow> string \<times> UniformInfo \<Rightarrow> effect list" where
  "uploadUniform bag entry =
     (let name = fst entry; info = snd entry; v = bag name
      in if v = Null \<or> v = Undefined then []
         else case u_type info of
           Float \<Rightarrow> [GL (Uniform1f (u_location info) v)]
         | Vec2 \<Rightarrow> [GL (Uniform2f (u_location info) (index v 0) (index v 1))]
         | Vec3 \<Rightarrow> [GL (Uniform3f (u_location info) (index v 0) (index v 1) (index v 2))]
         | Vec4 \<Rightarrow>
             [GL (Uniform4f (u_location info) (index v 0) (index v 1) (index v 2) (index v 3))]
         | IntType \<Rightarrow> [GL (Uniform1i (u_location info) v)]
         | Sampler2D \<Rightarrow>
             (case textureUnit info of
                None \<Rightarrow> []
              | Some unit \<Rightarrow> [GL (Uniform1i (u_location info) (Number (Num (real unit))))]))"

text \<open>\<open>render\<close>, lines 490-529.\<close>

definition render :: "env \<Rightarrow> real \<Rightarrow> ShaderUp \<Rightarrow> effect list \<times> ShaderUp" where
  "render e time s =
     (if isDestroyed s \<or> program s = None then ([], s)
      else
        let db = env_drawingBufferSize e (width (canvas s)) (height (canvas s));
            tr1 = [GL (UseProgram (the (program s)))];
            tr2 = (case timeLocation s of
                     None \<Rightarrow> []
                   | Some l \<Rightarrow> [GL (Uniform1f l (Number (Num (time * 0.001))))]);
            tr3 = (case resolutionLocation s of
                     None \<Rightarrow> []
                   | Some l \<Rightarrow>
                       [GL (Uniform2f l (Number (Num (real (fst db))))
                              (Number (Num (real (snd db)))))]);
            tr4 = concat (map (uploadUniform (uniforms s)) (uniformInfo s));
            tr5 = (if renderMode s = Fullscreen then [GL (DrawArrays TRIANGLES 0 3)]
                   else [GL (DrawArraysInstanced TRIANGLES 0 6 (numInstances s))])
        in case requestAnimationFrame s of
             (n, s') \<Rightarrow>
               (tr1 @ tr2 @ tr3 @ tr4 @ tr5 @ [RequestAnimationFrame n],
                s'\<lparr>animationFrameId := Some n\<rparr>))"

section \<open>The instance among its callers\<close>

text \<open>
  What can happen to a constructed instance: a call of one of its public methods, a write
  to the public value-bag, or the page calling back. The page runs an animation-frame
  callback only if one is pending, and takes it out of the queue before running it; it
  reports a new layout size to the resize observer only while the observer is connected,
  and a context event only while the listeners are attached.
\<close>

datatype event =
    Start
  | Stop
  | Dispose
  | SetData "real list"
  | SetTexture string image
  | WriteUniform string jsvalue
  | Frame real
  | Layout nat nat
  | ContextLost
  | ContextRestored

definition frame :: "env \<Rightarrow> real \<Rightarrow> ShaderUp \<Rightarrow> effect list \<times> ShaderUp" where
  "frame e time s =
     (case host_pending s of
        [] \<Rightarrow> ([], s)
      | n # ns \<Rightarrow> render e time (s\<lparr>host_pending := ns\<rparr>))"

definition layout :: "env \<Rightarrow> nat \<Rightarrow> nat \<Rightarrow> ShaderUp \<Rightarrow> effect list \<times> ShaderUp" where
  "layout e w h s =
     (let s' = s\<lparr>canvas := (canvas s)\<lparr>clientWidth := w, clientHeight := h\<rparr>\<rparr>
      in if resizeObserver s' then handleResize e (host_onResize s') s' else ([], s'))"

fun step :: "env \<Rightarrow> event \<Rightarrow> ShaderUp \<Rightarrow> effect list \<times> ShaderUp" where
  "step e Start s = start s"
| "step e Stop s = stop s"
| "step e Dispose s = dispose s"
| "step e (SetData data) s = setData data s"
| "step e (SetTexture name img) s = setTexture name img s"
| "step e (WriteUniform name v) s = ([], s\<lparr>uniforms := (uniforms s)(name := v)\<rparr>)"
| "step e (Frame time) s = frame e time s"
| "step e (Layout w h) s = layout e w h s"
| "step e ContextLost s = (if host_listeners s then handleContextLost s else ([], s))"
| "step e ContextRestored s = (if host_listeners s then handleContextRestored s else ([], s))"

fun run :: "env \<Rightarrow> event list \<Rightarrow> ShaderUp \<Rightarrow> effect list \<times> ShaderUp" where
  "run e [] s = ([], s)"
| "run e (ev # evs) s =
     (case step e ev s of (tr, s') \<Rightarrow>
        (case run e evs s' of (tr', s'') \<Rightarrow> (tr @ tr', s'')))"

section \<open>Notions used by the properties\<close>

text \<open>The draw calls of a trace are its effects that satisfy \<open>isDraw\<close>.\<close>

fun isDraw :: "effect \<Rightarrow> bool" where
  "isDraw (GL (DrawArrays m first n)) = True"
| "isDraw (GL (DrawArraysInstanced m first n k)) = True"
| "isDraw x = False"

text \<open>Its animation-frame requests are those that satisfy \<open>isFrameRequest\<close>.\<close>

fun isFrameRequest :: "effect \<Rightarrow> bool" where
  "isFrameRequest (RequestAnimationFrame n) = True"
| "isFrameRequest x = False"

text \<open>
  The (stride, offset) pairs of the \<open>vertexAttribPointer\<close> calls of a trace, each with the
  location it was issued for.
\<close>

fun attribPointers :: "effect list \<Rightarrow> (int \<times> nat \<times> nat) list" where
  "attribPointers [] = []"
| "attribPointers (GL (VertexAttribPointer loc n ty nrm stride offset) # tr) =
     (loc, stride, offset) # attribPointers tr"
| "attribPointers (x # tr) = attribPointers tr"

text \<open>Whether a trace allocates an object of the context.\<close>

fun allocates :: "effect \<Rightarrow> bool" where
  "allocates (GL (CreateShader k h)) = True"
| "allocates (GL (CreateProgram h)) = True"
| "allocates (GL (CreateBuffer h)) = True"
| "allocates (GL (CreateTexture h)) = True"
| "allocates (GetContext k) = True"
| "allocates x = False"

text \<open>
  The two messages of lines 104 and 107 are what the specification calls a
  ConfigurationError; the class itself throws a plain \<open>Error\<close> with the message.
\<close>

fun isConfigurationError :: "error \<Rightarrow> bool" where
  "isConfigurationError NumInstancesRequired = True"
| "isConfigurationError AttributesRequired = True"
| "isConfigurationError err = False"

text \<open>
  The invariant of the frame loop: the page's queue holds exactly the request the instance
  remembers; request ids are positive; a disposed instance remembers none; an instance
  that is not disposed has its program.
\<close>

definition loop_inv :: "ShaderUp \<Rightarrow> bool" where
  "loop_inv s =
     (host_pending s = (case animationFrameId s of None \<Rightarrow> [] | Some n \<Rightarrow> [n])
      \<and> (case animationFrameId s of None \<Rightarrow> True | Some n \<Rightarrow> 0 < n \<and> \<not> isDestroyed s)
      \<and> (isDestroyed s \<or> program s \<noteq> None))"

section \<open>Concrete configurations\<close>

text \<open>
  A page with one 800 by 600 canvas whose backing store is still 300 by 150, a context of
  either generation, and a program that has \<open>u_time\<close>, \<open>u_resolution\<close>, \<open>u_speed\<close> and
  the attributes \<open>a_position\<close>, \<open>a_quadVertex\<close>, \<open>a_instanceColor\<close>, but neither the
  uniform \<open>u_unused\<close> nor the attribute \<open>a_instancePositionSize\<close>.
\<close>

definition page_canvas :: HTMLCanvasElement where
  "page_canvas = \<lparr>clientWidth = 800, clientHeight = 600, width = 300, height = 150\<rparr>"

definition page_env :: env where
  "page_env =
     \<lparr>env_getElementById = (\<lambda>i. if i = ''instanced-canvas'' then Some page_canvas else None),
      env_querySelector = Some page_canvas,
      env_webgl2 = True, env_webgl = True,
      env_createShader = (\<lambda>k. True),
      env_compiles = (\<lambda>k src. True),
      env_shaderInfoLog = (\<lambda>k src. []),
      env_createProgram = True,
      env_links = (\<lambda>v f. True),
      env_programInfoLog = (\<lambda>v f. []),
      env_getUniformLocation =
        (\<lambda>n. if n = ''u_time'' then Some 0 else if n = ''u_resolution'' then Some 1
             else if n = ''u_speed'' then Some 2 else None),
      env_getAttribLocation =
        (\<lambda>n. if n = ''a_position'' then 0 else if n = ''a_quadVertex'' then 0
             else if n = ''a_instanceColor'' then 1 else -1),
      env_drawingBufferSize = (\<lambda>w h. (w, h))\<rparr>"

text \<open>The same page with a program in which every name resolves.\<close>

definition page_env_all :: env where
  "page_env_all =
     page_env\<lparr>env_getAttribLocation :=
        (\<lambda>n. if n = ''a_position'' then 0 else if n = ''a_quadVertex'' then 0
             else if n = ''a_instanceColor'' then 1 else 2)\<rparr>"

text \<open>The attribute layout of the README's instancing example.\<close>

definition readme_attributes :: "(string \<times> AttributeOptions) list" where
  "readme_attributes =
     [(''a_instancePositionSize'',
         \<lparr>attr_size = 4, attr_type = None, attr_instanced = Some True\<rparr>),
      (''a_instanceColor'',
         \<lparr>attr_size = 3, attr_type = None, attr_instanced = Some True\<rparr>)]"

text \<open>The README's instancing example with three instances and two declared uniforms.\<close>

definition readme_options :: ShaderUpOptions where
  "readme_options =
     \<lparr>opt_renderMode = Some Instanced, opt_canvasId = Some ''instanced-canvas'',
      opt_canvas = None, opt_fragmentShader = ''void main() {}'',
      opt_vertexShader = None,
      opt_uniforms = Some [(''u_speed'', Float), (''u_unused'', Vec2)],
      opt_attributes = Some readme_attributes, opt_numInstances = Some (Num 3),
      opt_onResize = True\<rparr>"

text \<open>
  What the constructor does on that page with these options, and the instance it returns
  (proved below, \<open>readme_constructs\<close>).
\<close>

definition readme_trace :: "effect list" where
  "readme_trace =
     [GetContext ''webgl2'', AddEventListener ''webglcontextlost'',
      AddEventListener ''webglcontextrestored'',
      GL (CreateShader VERTEX_SHADER (Some 0)),
      GL (ShaderSource 0 DefaultInstancedVertexShader), GL (CompileShader 0),
      GL (CreateShader FRAGMENT_SHADER (Some 1)),
      GL (ShaderSource 1 (Text ''void main() {}'')), GL (CompileShader 1),
      GL (CreateProgram (Some 2)), GL (AttachShader 2 0),
      GL (AttachShader 2 1), GL (LinkProgram 2), GL (DeleteShader 0),
      GL (DeleteShader 1), GL (CreateBuffer 3), GL (BindBuffer (Some 3)),
      GL (BufferData [0, 0, 1, 0, 0, 1, 0, 1, 1, 0, 1, 1] STATIC_DRAW),
      GL (EnableVertexAttribArray 0),
      GL (VertexAttribPointer 0 2 FLOAT False 0 0), GL (CreateBuffer 4),
      GL (BindBuffer (Some 4)),
      Warn (AttributeNotFound ''a_instancePositionSize''),
      GL (EnableVertexAttribArray 1),
      GL (VertexAttribPointer 1 3 FLOAT False 28 0),
      GL (VertexAttribDivisor 1 1), Warn (UniformNotFound ''u_unused''),
      GL (Viewport 0 0 800 600), OnResize 800 600, NewResizeObserver, Observe]"

definition readme_instance :: ShaderUp where
  "readme_instance =
     \<lparr>canvas = \<lparr>clientWidth = 800, clientHeight = 600, width = 800, height = 600\<rparr>,
      gl = WebGL2,
      uniforms = (\<lambda>name. Undefined)(''u_speed'' := Number (Num 0)),
      renderMode = Instanced, attributeOptions = Some readme_attributes,
      numInstances = Num 3, program = Some 2, animationFrameId = None,
      resizeObserver = True, isDestroyed = False,
      uniformInfo = [(''u_speed'', \<lparr>u_location = 2, u_type = Float, textureUnit = None\<rparr>)],
      textures = [], instanceBuffer = Some 4, timeLocation = Some 0,
      resolutionLocation = Some 1, host_onResize = True, host_listeners = True,
      host_pending = [], host_rafCounter = 0, host_fresh = 5\<rparr>"

section \<open>Properties\<close>

subsection \<open>What each method leaves untouched\<close>

lemma createShader_Inr:
  "createShader e k src s = (tr, Inr (h, s')) \<Longrightarrow> s' = s\<lparr>host_fresh := Suc (host_fresh s)\<rparr>"
  by (auto simp: createShader_def Let_def split: if_splits)

lemma createProgram_Inr:
  "createProgram e vsrc fsrc vs fs s = (tr, Inr (h, s')) \<Longrightarrow>
   s' = s\<lparr>host_fresh := Suc (host_fresh s)\<rparr>"
  by (auto simp: createProgram_def Let_def split: if_splits)

lemma handleResize_state:
  "snd (handleResize e cb s) =
     s\<lparr>canvas := (canvas s)\<lparr>width := clientWidth (canvas s), height := clientHeight (canvas s)\<rparr>\<rparr>"
  by (simp add: handleResize_def Let_def)

lemma initFullscreenResources_state:
  "\<exists>n. snd (initFullscreenResources e s) = s\<lparr>host_fresh := n\<rparr>"
  by (cases "program s") (auto simp: initFullscreenResources_def Let_def intro: exI[of _ "host_fresh s"])

lemma initInstancedResources_state:
  "\<exists>n b. snd (initInstancedResources e s) = s\<lparr>instanceBuffer := b, host_fresh := n\<rparr>"
  apply (cases "program s"; cases "attributeOptions s")
  apply (auto simp: initInstancedResources_def Let_def)
  apply (rule exI[of _ "host_fresh s"], rule exI[of _ "instanceBuffer s"], simp)+
  done

lemma registerUniforms_state:
  "\<exists>ui u. snd (registerUniforms e us n s) = s\<lparr>uniformInfo := ui, uniforms := u\<rparr>"
proof (induction e us n s rule: registerUniforms.induct)
  case (1 e texUnitCount s)
  have "snd (registerUniforms e [] texUnitCount s)
          = s\<lparr>uniformInfo := uniformInfo s, uniforms := uniforms s\<rparr>"
    by simp
  then show ?case by blast
next
  case (2 e name ty rest texUnitCount s)
  show ?case
  proof (cases "env_getUniformLocation e name")
    case None
    from 2(1)[OF None] obtain ui u where
      "snd (registerUniforms e rest texUnitCount s) = s\<lparr>uniformInfo := ui, uniforms := u\<rparr>"
      by blast
    with None have "snd (registerUniforms e ((name, ty) # rest) texUnitCount s)
        = s\<lparr>uniformInfo := ui, uniforms := u\<rparr>"
      by (cases "registerUniforms e rest texUnitCount s") simp
    then show ?thesis by blast
  next
    case (Some loc)
    from 2(2)[OF Some refl refl] obtain ui u where
      "snd (registerUniforms e rest (if ty = Sampler2D then Suc texUnitCount else texUnitCount)
         (s\<lparr>uniformInfo := map_set name \<lparr>u_location = loc, u_type = ty,
                      textureUnit = (if ty = Sampler2D then Some texUnitCount else None)\<rparr> (uniformInfo s),
                  uniforms := (uniforms s)(name := getDefaultUniformValue ty)\<rparr>))
       = s\<lparr>uniformInfo := ui, uniforms := u\<rparr>"
      by auto
    with Some have "snd (registerUniforms e ((name, ty) # rest) texUnitCount s)
        = s\<lparr>uniformInfo := ui, uniforms := u\<rparr>"
      by (simp add: Let_def)
    then show ?thesis by blast
  qed
qed

lemma processCustomUniforms_state:
  "\<exists>ui u. snd (processCustomUniforms e options s) = s\<lparr>uniformInfo := ui, uniforms := u\<rparr>"
proof (cases "opt_uniforms options")
  case None
  then have "snd (processCustomUniforms e options s) = s\<lparr>uniformInfo := uniformInfo s, uniforms := uniforms s\<rparr>"
    by (simp add: processCustomUniforms_def)
  then show ?thesis by blast
next
  case (Some us)
  then show ?thesis using registerUniforms_state[of e us 0 s] by (simp add: processCustomUniforms_def)
qed

lemma setTexture_state:
  "\<exists>t k. snd (setTexture name img s) = s\<lparr>textures := t, host_fresh := k\<rparr>"
proof -
  have triv: "s = s\<lparr>textures := textures s, host_fresh := host_fresh s\<rparr>" by simp
  show ?thesis
  proof (cases "isDestroyed s")
    case True
    then have "snd (setTexture name img s) = s" by (simp add: setTexture_def)
    with triv show ?thesis by metis
  next
    case False
    show ?thesis
    proof (cases "map_of (uniformInfo s) name")
      case None
      with False have "snd (setTexture name img s) = s" by (simp add: setTexture_def)
      with triv show ?thesis by metis
    next
      case (Some info)
      show ?thesis
      proof (cases "u_type info \<noteq> Sampler2D \<or> textureUnit info = None")
        case True
        with False Some have "snd (setTexture name img s) = s" by (simp add: setTexture_def)
        with triv show ?thesis by metis
      next
        case nb: False
        then obtain unit where u: "u_type info = Sampler2D" "textureUnit info = Some unit"
          by auto
        show ?thesis
        proof (cases "map_of (textures s) unit")
          case None
          with False Some u have "snd (setTexture name img s) =
             s\<lparr>textures := map_set unit (host_fresh s) (textures s),
               host_fresh := Suc (host_fresh s)\<rparr>"
            by (simp add: setTexture_def Let_def)
          then show ?thesis by blast
        next
          case (Some t)
          with False \<open>map_of (uniformInfo s) name = Some info\<close> u
          have "snd (setTexture name img s) = s" by (simp add: setTexture_def Let_def)
          with triv show ?thesis by metis
        qed
      qed
    qed
  qed
qed

subsection \<open>A successful construction\<close>

lemma initResources_Inr:
  assumes "initResources e options s = (tr, Inr s')"
  shows "\<exists>p b n. s' = snd (handleResize e (opt_onResize options)
            (snd (processCustomUniforms e options
               (s\<lparr>program := Some p, instanceBuffer := b, host_fresh := n,
                  timeLocation := env_getUniformLocation e ''u_time'',
                  resolutionLocation := env_getUniformLocation e ''u_resolution''\<rparr>))))
          \<and> set (fst (processCustomUniforms e options
               (s\<lparr>program := Some p, instanceBuffer := b, host_fresh := n,
                  timeLocation := env_getUniformLocation e ''u_time'',
                  resolutionLocation := env_getUniformLocation e ''u_resolution''\<rparr>))) \<subseteq> set tr"
proof -
  define vs where "vs = (if truthy_string (opt_vertexShader options)
             then Text (the (opt_vertexShader options)) else getDefaultVertexShader s)"
  define fs where "fs = Text (opt_fragmentShader options)"
  note defs = initResources_def Let_def vs_def[symmetric] fs_def[symmetric]
  from assms obtain tr1 v s1 where c1: "createShader e VERTEX_SHADER vs s = (tr1, Inr (v, s1))"
    unfolding defs by (auto split: prod.splits sum.splits)
  from assms c1 obtain tr2 f s2 where c2: "createShader e FRAGMENT_SHADER fs s1 = (tr2, Inr (f, s2))"
    unfolding defs by (auto split: prod.splits sum.splits)
  from assms c1 c2 obtain tr3 p s3 where c3: "createProgram e vs fs v f s2 = (tr3, Inr (p, s3))"
    unfolding defs by (auto split: prod.splits sum.splits)
  have s3: "s3 = s\<lparr>host_fresh := Suc (Suc (Suc (host_fresh s)))\<rparr>"
    using createShader_Inr[OF c1] createShader_Inr[OF c2] createProgram_Inr[OF c3] by simp
  let ?s4 = "s3\<lparr>program := Some p\<rparr>"
  obtain tr5 s5 where r5: "(if renderMode ?s4 = Fullscreen then initFullscreenResources e ?s4
             else initInstancedResources e ?s4) = (tr5, s5)"
    by fastforce
  obtain b n where s5: "s5 = ?s4\<lparr>instanceBuffer := b, host_fresh := n\<rparr>"
  proof (cases "renderMode ?s4 = Fullscreen")
    case True
    obtain n where "snd (initFullscreenResources e ?s4) = ?s4\<lparr>host_fresh := n\<rparr>"
      using initFullscreenResources_state by blast
    then have "s5 = ?s4\<lparr>instanceBuffer := instanceBuffer ?s4, host_fresh := n\<rparr>"
      using True r5 by simp
    then show ?thesis using that by blast
  next
    case False
    obtain n b where "snd (initInstancedResources e ?s4) = ?s4\<lparr>instanceBuffer := b, host_fresh := n\<rparr>"
      using initInstancedResources_state by blast
    then have "s5 = ?s4\<lparr>instanceBuffer := b, host_fresh := n\<rparr>"
      using False r5 by simp
    then show ?thesis using that by blast
  qed
  let ?s6 = "s\<lparr>program := Some p, instanceBuffer := b, host_fresh := n,
                timeLocation := env_getUniformLocation e ''u_time'',
                resolutionLocation := env_getUniformLocation e ''u_resolution''\<rparr>"
  have s6: "s5\<lparr>timeLocation := env_getUniformLocation e ''u_time'',
                resolutionLocation := env_getUniformLocation e ''u_resolution''\<rparr> = ?s6"
    unfolding s5 s3 by simp
  obtain tr7 s7 where d5: "processCustomUniforms e options (s5\<lparr>timeLocation := env_getUniformLocation e ''u_time'',
                resolutionLocation := env_getUniformLocation e ''u_resolution''\<rparr>) = (tr7, s7)" by fastforce
  have d: "processCustomUniforms e options ?s6 = (tr7, s7)" using d5 unfolding s6 .
  obtain tr8 s8 where h: "handleResize e (opt_onResize options) s7 = (tr8, s8)" by fastforce
  have "initResources e options s =
          (tr1 @ tr2 @ tr3 @ [GL (DeleteShader v), GL (DeleteShader f)] @ tr5 @ tr7 @ tr8, Inr s8)"
    unfolding defs using r5 d5 h
    by (simp add: c1 c2 c3)
  with assms have "s' = s8" "tr = tr1 @ tr2 @ tr3 @ [GL (DeleteShader v), GL (DeleteShader f)] @ tr5 @ tr7 @ tr8"
    by simp_all
  with d h have "s' = snd (handleResize e (opt_onResize options) (snd (processCustomUniforms e options ?s6)))
        \<and> set (fst (processCustomUniforms e options ?s6)) \<subseteq> set tr"
    by auto
  then show ?thesis by blast
qed

lemma constructor_Inr:
  assumes "constructor e options = (tr, Inr s)"
  shows "\<exists>mode n attrs cv ctx p b k.
           validateOptions options = Inr (mode, n, attrs)
         \<and> s = (snd (handleResize e (opt_onResize options)
                   (snd (processCustomUniforms e options
                      ((newInstance options mode n attrs cv ctx)
                         \<lparr>host_listeners := True, program := Some p, instanceBuffer := b,
                          host_fresh := k,
                          timeLocation := env_getUniformLocation e ''u_time'',
                          resolutionLocation := env_getUniformLocation e ''u_resolution''\<rparr>)))))
                \<lparr>resizeObserver := True\<rparr>
         \<and> set (fst (processCustomUniforms e options
                      ((newInstance options mode n attrs cv ctx)
                         \<lparr>host_listeners := True, program := Some p, instanceBuffer := b,
                          host_fresh := k,
                          timeLocation := env_getUniformLocation e ''u_time'',
                          resolutionLocation := env_getUniformLocation e ''u_resolution''\<rparr>)))
               \<subseteq> set tr"
proof -
  from assms obtain mode n attrs where v: "validateOptions options = Inr (mode, n, attrs)"
    by (auto simp: constructor_def split: sum.splits)
  from assms v obtain cv where c: "resolveCanvas e options = Inr cv"
    by (auto simp: constructor_def split: sum.splits)
  from assms v c obtain tr1 ctx where g: "initContext e mode = (tr1, Inr ctx)"
    by (auto simp: constructor_def split: sum.splits prod.splits)
  let ?s1 = "(newInstance options mode n attrs cv ctx)\<lparr>host_listeners := True\<rparr>"
  from assms v c g obtain tr3 s2 where i: "initResources e options ?s1 = (tr3, Inr s2)"
    by (auto simp: constructor_def Let_def split: sum.splits prod.splits)
  from assms v c g i have s: "s = s2\<lparr>resizeObserver := True\<rparr>" and tr: "set tr3 \<subseteq> set tr"
    by (auto simp: constructor_def Let_def)
  from initResources_Inr[OF i] obtain p b k where
    "s2 = snd (handleResize e (opt_onResize options)
            (snd (processCustomUniforms e options
               (?s1\<lparr>program := Some p, instanceBuffer := b, host_fresh := k,
                  timeLocation := env_getUniformLocation e ''u_time'',
                  resolutionLocation := env_getUniformLocation e ''u_resolution''\<rparr>))))"
    "set (fst (processCustomUniforms e options
               (?s1\<lparr>program := Some p, instanceBuffer := b, host_fresh := k,
                  timeLocation := env_getUniformLocation e ''u_time'',
                  resolutionLocation := env_getUniformLocation e ''u_resolution''\<rparr>))) \<subseteq> set tr3"
    by blast
  with s tr v show ?thesis by (simp del: set_subset_Cons) blast
qed

text \<open>What a constructed instance looks like.\<close>

lemma constructor_fields:
  assumes "constructor e options = (tr, Inr s)"
  shows "renderMode s = (case opt_renderMode options of Some m \<Rightarrow> m | None \<Rightarrow> Fullscreen)"
    and "numInstances s = (if opt_renderMode options = Some Instanced
                           then the (opt_numInstances options) else Num 0)"
    and "opt_renderMode options = Some Instanced \<Longrightarrow> truthy_number (opt_numInstances options)"
    and "program s \<noteq> None" and "\<not> isDestroyed s" and "animationFrameId s = None"
    and "host_pending s = []" and "resizeObserver s" and "host_listeners s"
    and "host_onResize s = opt_onResize options"
proof -
  from constructor_Inr[OF assms] obtain mode n attrs cv ctx p b k where
    v: "validateOptions options = Inr (mode, n, attrs)" and
    s: "s = (snd (handleResize e (opt_onResize options)
                   (snd (processCustomUniforms e options
                      ((newInstance options mode n attrs cv ctx)
                         \<lparr>host_listeners := True, program := Some p, instanceBuffer := b,
                          host_fresh := k,
                          timeLocation := env_getUniformLocation e ''u_time'',
                          resolutionLocation := env_getUniformLocation e ''u_resolution''\<rparr>)))))
                \<lparr>resizeObserver := True\<rparr>"
    by blast
  let ?b = "(newInstance options mode n attrs cv ctx)
                         \<lparr>host_listeners := True, program := Some p, instanceBuffer := b,
                          host_fresh := k,
                          timeLocation := env_getUniformLocation e ''u_time'',
                          resolutionLocation := env_getUniformLocation e ''u_resolution''\<rparr>"
  obtain ui u where d: "snd (processCustomUniforms e options ?b) = ?b\<lparr>uniformInfo := ui, uniforms := u\<rparr>"
    using processCustomUniforms_state by blast
  have mode: "mode = (case opt_renderMode options of Some m \<Rightarrow> m | None \<Rightarrow> Fullscreen)"
    and n: "n = (if opt_renderMode options = Some Instanced
                 then the (opt_numInstances options) else Num 0)"
    and t: "opt_renderMode options = Some Instanced \<Longrightarrow> truthy_number (opt_numInstances options)"
    using v by (auto simp: validateOptions_def Let_def split: if_splits option.splits)
  show "renderMode s = (case opt_renderMode options of Some m \<Rightarrow> m | None \<Rightarrow> Fullscreen)"
    unfolding s handleResize_state d using mode by (simp add: newInstance_def)
  show "numInstances s = (if opt_renderMode options = Some Instanced
                           then the (opt_numInstances options) else Num 0)"
    unfolding s handleResize_state d using n by (simp add: newInstance_def)
  show "opt_renderMode options = Some Instanced \<Longrightarrow> truthy_number (opt_numInstances options)"
    by (rule t)
  show "program s \<noteq> None" "\<not> isDestroyed s" "animationFrameId s = None"
     "host_pending s = []" "resizeObserver s" "host_listeners s"
     "host_onResize s = opt_onResize options"
    unfolding s handleResize_state d by (simp_all add: newInstance_def)
qed

lemmas eval_defs =
  constructor_def validateOptions_def resolveCanvas_def initContext_def newInstance_def
  initResources_def createShader_def createProgram_def getDefaultVertexShader_def
  processCustomUniforms_def
  initInstancedResources_def initFullscreenResources_def handleResize_def
  page_env_def page_canvas_def readme_options_def readme_attributes_def Let_def

lemma readme_constructs:
  "constructor page_env readme_options = (readme_trace, Inr readme_instance)"
  by (simp add: eval_defs readme_trace_def readme_instance_def)

subsection \<open>The invariant of the frame loop\<close>

lemma loop_inv_start: "loop_inv s \<Longrightarrow> loop_inv (snd (start s))"
  by (auto simp: loop_inv_def start_def requestAnimationFrame_def Let_def split: option.splits)

lemma loop_inv_stop: "loop_inv s \<Longrightarrow> loop_inv (snd (stop s))"
  by (auto simp: loop_inv_def stop_def cancelAnimationFrame_def split: option.splits)

lemma stop_idle: "loop_inv s \<Longrightarrow> animationFrameId (snd (stop s)) = None \<and> host_pending (snd (stop s)) = []"
  by (auto simp: loop_inv_def stop_def cancelAnimationFrame_def split: option.splits)

lemma loop_inv_dispose: "loop_inv s \<Longrightarrow> loop_inv (snd (dispose s))"
  using stop_idle[of s]
  by (cases "stop s") (auto simp: loop_inv_def dispose_def Let_def)

lemma loop_inv_setData: "loop_inv s \<Longrightarrow> loop_inv (snd (setData d s))"
  by (simp add: setData_def)

lemma loop_inv_setTexture: "loop_inv s \<Longrightarrow> loop_inv (snd (setTexture name img s))"
proof -
  assume a: "loop_inv s"
  obtain t k where "snd (setTexture name img s) = s\<lparr>textures := t, host_fresh := k\<rparr>"
    using setTexture_state by blast
  with a show ?thesis by (simp add: loop_inv_def split: option.splits)
qed

lemma loop_inv_frame: "loop_inv s \<Longrightarrow> loop_inv (snd (frame e t s))"
  by (auto simp: loop_inv_def frame_def render_def requestAnimationFrame_def Let_def
           split: option.splits list.splits)

lemma loop_inv_layout: "loop_inv s \<Longrightarrow> loop_inv (snd (layout e w h s))"
  by (simp add: layout_def Let_def handleResize_state loop_inv_def split: option.splits)

lemma loop_inv_contextLost: "loop_inv s \<Longrightarrow> loop_inv (snd (handleContextLost s))"
  using loop_inv_stop[of s] by (cases "stop s") (simp add: handleContextLost_def)

lemma loop_inv_step: "loop_inv s \<Longrightarrow> loop_inv (snd (step e ev s))"
  by (cases ev)
     (simp_all add: loop_inv_start loop_inv_stop loop_inv_dispose loop_inv_setData
        loop_inv_setTexture loop_inv_frame loop_inv_layout loop_inv_contextLost
        handleContextRestored_def, simp add: loop_inv_def split: option.splits)

lemma snd_run_Cons: "snd (run e (ev # evs) s) = snd (run e evs (snd (step e ev s)))"
  by (simp split: prod.splits)

lemma fst_run_Cons:
  "fst (run e (ev # evs) s) = fst (step e ev s) @ fst (run e evs (snd (step e ev s)))"
  by (simp split: prod.splits)

lemma loop_inv_run: "loop_inv s \<Longrightarrow> loop_inv (snd (run e evs s))"
proof (induction evs arbitrary: s)
  case Nil
  then show ?case by simp
next
  case (Cons ev evs)
  from Cons.IH[OF loop_inv_step[OF Cons.prems, of e ev]] show ?case
    by (simp only: snd_run_Cons)
qed

lemma loop_inv_constructor: "constructor e options = (tr, Inr s) \<Longrightarrow> loop_inv s"
  using constructor_fields(4,5,6,7)[of e options tr s] by (simp add: loop_inv_def)

subsection \<open>What no event changes, and what an idle instance does\<close>

lemma step_static:
  "renderMode (snd (step e ev s)) = renderMode s
   \<and> numInstances (snd (step e ev s)) = numInstances s
   \<and> uniformInfo (snd (step e ev s)) = uniformInfo s
   \<and> (isDestroyed s \<longrightarrow> isDestroyed (snd (step e ev s)))"
proof (cases ev)
  case Start
  then show ?thesis by (simp add: start_def requestAnimationFrame_def Let_def)
next
  case Stop
  then show ?thesis by (simp add: stop_def cancelAnimationFrame_def)
next
  case Dispose
  then show ?thesis
    by (cases "stop s") (auto simp: dispose_def stop_def cancelAnimationFrame_def Let_def split: if_splits)
next
  case (SetData d)
  then show ?thesis by (simp add: setData_def)
next
  case (SetTexture name img)
  obtain t k where "snd (setTexture name img s) = s\<lparr>textures := t, host_fresh := k\<rparr>"
    using setTexture_state by blast
  with SetTexture show ?thesis by simp
next
  case (WriteUniform name v)
  then show ?thesis by simp
next
  case (Frame t)
  then show ?thesis
    by (simp add: frame_def render_def requestAnimationFrame_def Let_def split: list.splits)
next
  case (Layout w h)
  then show ?thesis by (simp add: layout_def Let_def handleResize_state)
next
  case ContextLost
  then show ?thesis
    by (cases "stop s") (auto simp: handleContextLost_def stop_def cancelAnimationFrame_def split: if_splits)
next
  case ContextRestored
  then show ?thesis by (simp add: handleContextRestored_def)
qed

lemma run_static:
  "renderMode (snd (run e evs s)) = renderMode s
   \<and> numInstances (snd (run e evs s)) = numInstances s
   \<and> uniformInfo (snd (run e evs s)) = uniformInfo s
   \<and> (isDestroyed s \<longrightarrow> isDestroyed (snd (run e evs s)))"
proof (induction evs arbitrary: s)
  case Nil
  show ?case by simp
next
  case (Cons ev evs)
  show ?case
    using Cons.IH[of "snd (step e ev s)"] step_static[of e ev s]
    by (simp only: snd_run_Cons) simp
qed

lemma dispose_trace_quiet:
  "filter isDraw (map (\<lambda>(unit, tex). GL (DeleteTexture tex)) ts) = []"
  "filter isFrameRequest (map (\<lambda>(unit, tex). GL (DeleteTexture tex)) ts) = []"
  by (induction ts) auto

lemma setTexture_quiet:
  "filter isDraw (fst (setTexture name img s)) = []"
  "filter isFrameRequest (fst (setTexture name img s)) = []"
  by (auto simp: setTexture_def Let_def split: option.splits)

lemma handleResize_quiet:
  "filter isDraw (fst (handleResize e cb s)) = []"
  "filter isFrameRequest (fst (handleResize e cb s)) = []"
  by (auto simp: handleResize_def Let_def)

lemma upload_no_draw: "filter isDraw (concat (map (uploadUniform bag) ui)) = []"
  by (induction ui) (auto simp: uploadUniform_def Let_def split: UniformType.splits option.splits)

lemma idle_step:
  assumes "animationFrameId s = None" and "host_pending s = []" and "ev \<noteq> Start"
  shows "animationFrameId (snd (step e ev s)) = None \<and> host_pending (snd (step e ev s)) = []
         \<and> filter isDraw (fst (step e ev s)) = []
         \<and> filter isFrameRequest (fst (step e ev s)) = []"
proof (cases ev)
  case Start
  with assms show ?thesis by simp
next
  case Stop
  with assms show ?thesis by (simp add: stop_def)
next
  case Dispose
  with assms show ?thesis
    by (simp add: dispose_def stop_def Let_def dispose_trace_quiet split: option.splits)
next
  case (SetData d)
  with assms show ?thesis by (simp add: setData_def)
next
  case (SetTexture name img)
  obtain t k where "snd (setTexture name img s) = s\<lparr>textures := t, host_fresh := k\<rparr>"
    using setTexture_state by blast
  with SetTexture assms show ?thesis by (simp add: setTexture_quiet)
next
  case (WriteUniform name v)
  with assms show ?thesis by simp
next
  case (Frame t)
  with assms show ?thesis by (simp add: frame_def)
next
  case (Layout w h)
  with assms show ?thesis by (simp add: layout_def Let_def handleResize_state handleResize_quiet)
next
  case ContextLost
  with assms show ?thesis by (simp add: handleContextLost_def stop_def)
next
  case ContextRestored
  with assms show ?thesis by (simp add: handleContextRestored_def)
qed

lemma idle_run:
  assumes "animationFrameId s = None" and "host_pending s = []" and "Start \<notin> set evs"
  shows "animationFrameId (snd (run e evs s)) = None \<and> host_pending (snd (run e evs s)) = []
         \<and> filter isDraw (fst (run e evs s)) = []
         \<and> filter isFrameRequest (fst (run e evs s)) = []"
  using assms
proof (induction evs arbitrary: s)
  case Nil
  then show ?case by simp
next
  case (Cons ev evs)
  from Cons.prems have ne: "ev \<noteq> Start" and rest: "Start \<notin> set evs" by auto
  note st = idle_step[OF Cons.prems(1,2) ne, of e]
  from Cons.IH[of "snd (step e ev s)"] st rest
  show ?case by (simp only: snd_run_Cons fst_run_Cons filter_append) simp
qed

subsection \<open>Registration of the declared uniforms\<close>

lemma keys_map_set: "fst ` set (map_set k v xs) = insert k (fst ` set xs)"
  by (induction k v xs rule: map_set.induct) auto

lemma registerUniforms_unresolved:
  "env_getUniformLocation e name = None \<Longrightarrow>
     uniforms (snd (registerUniforms e us n s)) name = uniforms s name
   \<and> (name \<notin> fst ` set (uniformInfo s) \<longrightarrow>
        name \<notin> fst ` set (uniformInfo (snd (registerUniforms e us n s))))
   \<and> (name \<in> fst ` set us \<longrightarrow>
        Warn (UniformNotFound name) \<in> set (fst (registerUniforms e us n s)))"
proof (induction e us n s rule: registerUniforms.induct)
  case (1 e texUnitCount s)
  show ?case by simp
next
  case (2 e nm ty rest texUnitCount s)
  show ?case
  proof (cases "env_getUniformLocation e nm")
    case None
    from 2(1)[OF None 2(3)] None show ?thesis
      by (cases "registerUniforms e rest texUnitCount s") auto
  next
    case (Some loc)
    with 2(3) have ne: "nm \<noteq> name" by auto
    from 2(2)[OF Some refl refl 2(3)] Some ne show ?thesis
      by (simp add: Let_def keys_map_set)
  qed
qed

lemma registerUniforms_undeclared:
  "name \<notin> fst ` set us \<Longrightarrow> uniforms (snd (registerUniforms e us n s)) name = uniforms s name"
proof (induction e us n s rule: registerUniforms.induct)
  case (1 e texUnitCount s)
  show ?case by simp
next
  case (2 e nm ty rest texUnitCount s)
  from 2(3) have ne: "nm \<noteq> name" and rest: "name \<notin> fst ` set rest" by auto
  show ?case
  proof (cases "env_getUniformLocation e nm")
    case None
    from 2(1)[OF None rest] None show ?thesis
      by (cases "registerUniforms e rest texUnitCount s") auto
  next
    case (Some loc)
    from 2(2)[OF Some refl refl rest] Some ne show ?thesis
      by (simp add: Let_def)
  qed
qed

lemma registerUniforms_seeds:
  "distinct (map fst us) \<Longrightarrow> (name, ty) \<in> set us \<Longrightarrow> env_getUniformLocation e name = Some loc
   \<Longrightarrow> uniforms (snd (registerUniforms e us n s)) name = getDefaultUniformValue ty"
proof (induction e us n s rule: registerUniforms.induct)
  case (1 e texUnitCount s)
  then show ?case by simp
next
  case (2 e nm t rest texUnitCount s)
  from 2(3) have d: "distinct (map fst rest)" and fresh: "nm \<notin> fst ` set rest" by auto
  show ?case
  proof (cases "(name, ty) = (nm, t)")
    case True
    with fresh 2(5) show ?thesis
      by (simp add: Let_def registerUniforms_undeclared)
  next
    case False
    with 2(4) have mem: "(name, ty) \<in> set rest" by auto
    show ?thesis
    proof (cases "env_getUniformLocation e nm")
      case None
      from 2(1)[OF None d mem 2(5)] None show ?thesis
        by (cases "registerUniforms e rest texUnitCount s") auto
    next
      case (Some l)
      from 2(2)[OF Some refl refl d mem 2(5)] Some show ?thesis
        by (simp add: Let_def)
    qed
  qed
qed

lemma constructor_uniforms:
  assumes "constructor e options = (tr, Inr s)" and "opt_uniforms options = Some us"
  shows "\<exists>b. uniforms b = (\<lambda>name. Undefined) \<and> uniformInfo b = []
           \<and> uniforms s = uniforms (snd (registerUniforms e us 0 b))
           \<and> uniformInfo s = uniformInfo (snd (registerUniforms e us 0 b))
           \<and> set (fst (registerUniforms e us 0 b)) \<subseteq> set tr"
proof -
  from constructor_Inr[OF assms(1)] obtain mode n attrs cv ctx p b k where
    s: "s = (snd (handleResize e (opt_onResize options)
                   (snd (processCustomUniforms e options
                      ((newInstance options mode n attrs cv ctx)
                         \<lparr>host_listeners := True, program := Some p, instanceBuffer := b,
                          host_fresh := k,
                          timeLocation := env_getUniformLocation e ''u_time'',
                          resolutionLocation := env_getUniformLocation e ''u_resolution''\<rparr>)))))
                \<lparr>resizeObserver := True\<rparr>"
    and tr: "set (fst (processCustomUniforms e options
                      ((newInstance options mode n attrs cv ctx)
                         \<lparr>host_listeners := True, program := Some p, instanceBuffer := b,
                          host_fresh := k,
                          timeLocation := env_getUniformLocation e ''u_time'',
                          resolutionLocation := env_getUniformLocation e ''u_resolution''\<rparr>)))
               \<subseteq> set tr"
    by blast
  let ?b = "(newInstance options mode n attrs cv ctx)
                         \<lparr>host_listeners := True, program := Some p, instanceBuffer := b,
                          host_fresh := k,
                          timeLocation := env_getUniformLocation e ''u_time'',
                          resolutionLocation := env_getUniformLocation e ''u_resolution''\<rparr>"
  have d: "processCustomUniforms e options ?b = registerUniforms e us 0 ?b"
    using assms(2) by (simp add: processCustomUniforms_def)
  have "uniforms ?b = (\<lambda>name. Undefined)" "uniformInfo ?b = []"
    by (simp_all add: newInstance_def)
  moreover have "uniforms s = uniforms (snd (registerUniforms e us 0 ?b))"
    "uniformInfo s = uniformInfo (snd (registerUniforms e us 0 ?b))"
    unfolding s handleResize_state d by simp_all
  moreover have "set (fst (registerUniforms e us 0 ?b)) \<subseteq> set tr"
    using tr unfolding d .
  ultimately show ?thesis by blast
qed

lemma upload_inert:
  "name \<notin> fst ` set ui \<Longrightarrow>
   map (uploadUniform (bag(name := v))) ui = map (uploadUniform bag) ui"
  by (induction ui) (auto simp: uploadUniform_def Let_def)

lemma render_inert:
  "name \<notin> fst ` set (uniformInfo s) \<Longrightarrow>
   fst (render e t (s\<lparr>uniforms := (uniforms s)(name := v)\<rparr>)) = fst (render e t s)"
  by (simp add: render_def requestAnimationFrame_def Let_def upload_inert)

subsection \<open>Stride and disposal\<close>

lemma calcStride_acc:
  "calcStride attrs acc = acc + (\<Sum>(name, opts)\<leftarrow>attrs. attr_size opts * 4)"
  by (induction attrs acc rule: calcStride.induct) simp_all

lemma setupAttributes_stride:
  "(loc, st, off) \<in> set (attribPointers (setupAttributes e attrs stride offset)) \<Longrightarrow> st = stride"
  by (induction e attrs stride offset rule: setupAttributes.induct)
     (auto simp: Let_def split: if_splits)

lemma dispose_twice:
  "dispose (snd (dispose s)) =
     ([RemoveEventListener ''webglcontextlost'', RemoveEventListener ''webglcontextrestored''],
      snd (dispose s))"
  by (cases "truthy_id (animationFrameId s)")
     (simp_all add: dispose_def stop_def cancelAnimationFrame_def Let_def)

lemma dispose_released:
  "program (snd (dispose s)) = None \<and> instanceBuffer (snd (dispose s)) = None
   \<and> textures (snd (dispose s)) = [] \<and> isDestroyed (snd (dispose s))"
  by (cases "stop s") (simp add: dispose_def Let_def)

lemma destroyed_noop:
  "isDestroyed s \<Longrightarrow>
     start s = ([], s) \<and> setData data s = ([], s) \<and> setTexture name img s = ([], s)"
  by (simp add: start_def setData_def setTexture_def)

subsection \<open>The claims\<close>

text \<open>
  C1. In instanced mode, when \<open>numInstances\<close> is missing or \<open>attributes\<close> is missing, the
  constructor throws one of the two configuration errors, and the trace of what it did
  before is empty: no context was requested and no shader, program, buffer or texture was
  created. The result is the error, so no instance exists.
\<close>

theorem instanced_requires_both_fields:
  assumes "opt_renderMode options = Some Instanced"
    and "opt_numInstances options = None \<or> opt_attributes options = None"
  shows "\<exists>err. constructor e options = ([], Inl err) \<and> isConfigurationError err
           \<and> filter allocates (fst (constructor e options)) = []"
  using assms by (auto simp: constructor_def validateOptions_def)

text \<open>The same on the page and the options of the README.\<close>

theorem instanced_requires_both_fields_witness:
  "opt_renderMode (readme_options\<lparr>opt_attributes := None\<rparr>) = Some Instanced
   \<and> (opt_numInstances (readme_options\<lparr>opt_attributes := None\<rparr>) = None
        \<or> opt_attributes (readme_options\<lparr>opt_attributes := None\<rparr>) = None)
   \<and> constructor page_env (readme_options\<lparr>opt_attributes := None\<rparr>)
        = ([], Inl AttributesRequired)
   \<and> isConfigurationError AttributesRequired"
proof -
  have h1: "opt_renderMode (readme_options\<lparr>opt_attributes := None\<rparr>) = Some Instanced"
    by (simp add: readme_options_def)
  have h2: "opt_numInstances (readme_options\<lparr>opt_attributes := None\<rparr>) = None
        \<or> opt_attributes (readme_options\<lparr>opt_attributes := None\<rparr>) = None"
    by simp
  have n: "opt_numInstances (readme_options\<lparr>opt_attributes := None\<rparr>) = Some (Num 3)"
    by (simp add: readme_options_def)
  from instanced_requires_both_fields[OF h1 h2, of page_env] obtain err where
    e: "constructor page_env (readme_options\<lparr>opt_attributes := None\<rparr>) = ([], Inl err)"
    by blast
  have "constructor page_env (readme_options\<lparr>opt_attributes := None\<rparr>)
        = ([], Inl AttributesRequired)"
    using h1 n by (simp add: constructor_def validateOptions_def)
  with h1 h2 e show ?thesis by simp
qed

text \<open>
  C2. The claim is that an attribute declared after one that failed to resolve keeps the
  byte offset it would have had if the other had resolved. The loop of lines 257-276 does
  not do that: on the README's layout, with \<open>a_instancePositionSize\<close> (16 bytes) absent
  from the program, \<open>a_instanceColor\<close> is bound at offset 0 of a 28-byte stride; with every
  name resolved it is bound at offset 16.
\<close>

theorem skipped_attribute_compacts_offsets:
  "attribPointers (fst (constructor page_env readme_options)) = [(0, 0, 0), (1, 28, 0)]
   \<and> attribPointers (fst (constructor page_env_all readme_options))
       = [(0, 0, 0), (2, 28, 0), (1, 28, 16)]"
  by (simp add: eval_defs page_env_all_def)

text \<open>
  C3. The stride computed by \<open>initInstancedResources\<close> is the sum over the declared
  attributes, in declaration order, of four times the component count. The program is not
  asked: \<open>calcStride\<close> has no access to the host. Whatever the program resolves, the first
  \<open>vertexAttribPointer\<close> call is the one for the unit quad, and every later one, which are
  those of the instance buffer, is given that stride.
\<close>

theorem stride_is_declared_sum:
  assumes "program s = Some prog" and "attributeOptions s = Some attrs"
  shows "calcStride attrs 0 = (\<Sum>(name, opts)\<leftarrow>attrs. attr_size opts * 4)
       \<and> (\<exists>aps. attribPointers (fst (initInstancedResources e s))
                   = (env_getAttribLocation e ''a_quadVertex'', 0, 0) # aps
              \<and> (\<forall>(loc, stride, offset) \<in> set aps.
                    stride = (\<Sum>(name, opts)\<leftarrow>attrs. attr_size opts * 4)))"
proof -
  let ?S = "\<Sum>(name, opts)\<leftarrow>attrs. attr_size opts * 4"
  have st: "calcStride attrs 0 = ?S" by (simp add: calcStride_acc)
  have "attribPointers (fst (initInstancedResources e s))
          = (env_getAttribLocation e ''a_quadVertex'', 0, 0)
              # attribPointers (setupAttributes e attrs ?S 0)"
    using assms by (simp add: initInstancedResources_def Let_def st)
  moreover have "\<forall>(loc, stride, offset) \<in> set (attribPointers (setupAttributes e attrs ?S 0)).
      stride = ?S"
    using setupAttributes_stride[of _ _ _ e attrs ?S 0] by auto
  ultimately show ?thesis using st by blast
qed

text \<open>The same on the page and the options of the README.\<close>

theorem stride_is_declared_sum_witness:
  "program readme_instance = Some 2 \<and> attributeOptions readme_instance = Some readme_attributes
   \<and> calcStride readme_attributes 0 = 28
   \<and> attribPointers (fst (initInstancedResources page_env readme_instance))
       = [(0, 0, 0), (1, 28, 0)]
   \<and> attribPointers (fst (initInstancedResources page_env_all readme_instance))
       = [(0, 0, 0), (2, 28, 0), (1, 28, 16)]"
proof -
  have h1: "program readme_instance = Some 2" by (simp add: readme_instance_def)
  have h2: "attributeOptions readme_instance = Some readme_attributes"
    by (simp add: readme_instance_def)
  from stride_is_declared_sum[OF h1 h2, of page_env]
  have "calcStride readme_attributes 0
          = (\<Sum>(name, opts)\<leftarrow>readme_attributes. attr_size opts * 4)" by blast
  then have "calcStride readme_attributes 0 = 28" by (simp add: readme_attributes_def)
  moreover have "attribPointers (fst (initInstancedResources page_env readme_instance))
       = [(0, 0, 0), (1, 28, 0)]"
    by (simp add: initInstancedResources_def readme_instance_def readme_attributes_def
          page_env_def Let_def)
  moreover have "attribPointers (fst (initInstancedResources page_env_all readme_instance))
       = [(0, 0, 0), (2, 28, 0), (1, 28, 16)]"
    by (simp add: initInstancedResources_def readme_instance_def readme_attributes_def
          page_env_all_def page_env_def Let_def)
  ultimately show ?thesis using h1 h2 by simp
qed

text \<open>
  C4. A second \<open>dispose\<close> leaves the instance exactly as the first one left it, and sends
  nothing to the context: it only repeats the removal of the two context listeners. After
  the first call the program and the instance buffer are \<open>null\<close> and the texture map is
  empty. From then on, whatever happens to the instance, \<open>start\<close>, \<open>setData\<close> and
  \<open>setTexture\<close> change nothing and have no effect.
\<close>

theorem dispose_idempotent:
  "dispose (snd (dispose s)) =
     ([RemoveEventListener ''webglcontextlost'', RemoveEventListener ''webglcontextrestored''],
      snd (dispose s))
   \<and> program (snd (dispose s)) = None \<and> instanceBuffer (snd (dispose s)) = None
   \<and> textures (snd (dispose s)) = []
   \<and> (\<forall>evs data name img.
         start (snd (run e evs (snd (dispose s)))) = ([], snd (run e evs (snd (dispose s))))
       \<and> setData data (snd (run e evs (snd (dispose s))))
           = ([], snd (run e evs (snd (dispose s))))
       \<and> setTexture name img (snd (run e evs (snd (dispose s))))
           = ([], snd (run e evs (snd (dispose s)))))"
proof -
  have "isDestroyed (snd (run e evs (snd (dispose s))))" for evs
    using run_static[of e evs "snd (dispose s)"] dispose_released[of s] by simp
  then show ?thesis
    using dispose_twice[of s] dispose_released[of s] by (simp add: destroyed_noop)
qed

text \<open>The same on the page and the options of the README.\<close>

theorem dispose_idempotent_witness:
  "dispose (snd (dispose readme_instance)) =
     ([RemoveEventListener ''webglcontextlost'', RemoveEventListener ''webglcontextrestored''],
      snd (dispose readme_instance))
   \<and> fst (dispose readme_instance) =
       [Disconnect, RemoveEventListener ''webglcontextlost'',
        RemoveEventListener ''webglcontextrestored'', GL (DeleteBuffer 4), GL (DeleteProgram 2)]
   \<and> program (snd (dispose readme_instance)) = None
   \<and> start (snd (run page_env [Frame 16, Layout 400 300] (snd (dispose readme_instance))))
        = ([], snd (run page_env [Frame 16, Layout 400 300] (snd (dispose readme_instance))))"
proof -
  have "fst (dispose readme_instance) =
       [Disconnect, RemoveEventListener ''webglcontextlost'',
        RemoveEventListener ''webglcontextrestored'', GL (DeleteBuffer 4), GL (DeleteProgram 2)]"
    by (simp add: dispose_def stop_def readme_instance_def Let_def)
  with dispose_idempotent[of readme_instance page_env] show ?thesis by blast
qed

text \<open>
  C5. In every state that a constructed instance can reach, at most one animation-frame
  callback is pending. \<open>start\<close> requests exactly one frame when none is remembered and the
  instance is not disposed, and does nothing otherwise. A frame that runs requests exactly
  one frame, which is then the only one pending. After \<open>stop\<close> nothing is pending, and as
  long as \<open>start\<close> is not called no frame is requested and nothing is drawn.
\<close>

theorem frame_loop_single_callback:
  assumes "constructor e options = (tr0, Inr s0)" and "run e evs s0 = (tr, s)"
  shows "length (host_pending s) \<le> 1
    \<and> (if animationFrameId s = None \<and> \<not> isDestroyed s
        then \<exists>n. fst (start s) = [RequestAnimationFrame n] \<and> host_pending s = []
                 \<and> host_pending (snd (start s)) = [n]
        else start s = ([], s))
    \<and> (host_pending s \<noteq> [] \<longrightarrow>
          (\<exists>n. filter isFrameRequest (fst (frame e t s)) = [RequestAnimationFrame n]
              \<and> host_pending (snd (frame e t s)) = [n]))
    \<and> host_pending (snd (stop s)) = []
    \<and> (\<forall>evs'. Start \<notin> set evs' \<longrightarrow>
          host_pending (snd (run e evs' (snd (stop s)))) = []
        \<and> filter isDraw (fst (run e evs' (snd (stop s)))) = []
        \<and> filter isFrameRequest (fst (run e evs' (snd (stop s)))) = [])"
proof -
  have "loop_inv (snd (run e evs s0))"
    by (rule loop_inv_run[OF loop_inv_constructor[OF assms(1)]])
  with assms(2) have inv: "loop_inv s" by simp
  have p1: "length (host_pending s) \<le> 1"
    using inv by (simp add: loop_inv_def split: option.splits)
  have p2: "if animationFrameId s = None \<and> \<not> isDestroyed s
        then \<exists>n. fst (start s) = [RequestAnimationFrame n] \<and> host_pending s = []
                 \<and> host_pending (snd (start s)) = [n]
        else start s = ([], s)"
    using inv
    by (auto simp: loop_inv_def start_def requestAnimationFrame_def Let_def split: option.splits)
  have up: "filter isFrameRequest (concat (map (uploadUniform bag) ui)) = []" for bag ui
    by (induction ui) (auto simp: uploadUniform_def Let_def split: UniformType.splits option.splits)
  have p3: "host_pending s \<noteq> [] \<longrightarrow>
          (\<exists>n. filter isFrameRequest (fst (frame e t s)) = [RequestAnimationFrame n]
              \<and> host_pending (snd (frame e t s)) = [n])"
    using inv
    by (auto simp: loop_inv_def frame_def render_def requestAnimationFrame_def Let_def up
             split: option.splits list.splits)
  have idle: "animationFrameId (snd (stop s)) = None \<and> host_pending (snd (stop s)) = []"
    by (rule stop_idle[OF inv])
  have p5: "\<forall>evs'. Start \<notin> set evs' \<longrightarrow>
          host_pending (snd (run e evs' (snd (stop s)))) = []
        \<and> filter isDraw (fst (run e evs' (snd (stop s)))) = []
        \<and> filter isFrameRequest (fst (run e evs' (snd (stop s)))) = []"
    using idle_run[of "snd (stop s)" _ e] idle by blast
  from p1 p2 p3 idle p5 show ?thesis by blast
qed

text \<open>The same on the page and the options of the README.\<close>

theorem frame_loop_single_callback_witness:
  "constructor page_env readme_options = (readme_trace, Inr readme_instance)
   \<and> length (host_pending (snd (run page_env [Start, Frame 16, Start] readme_instance))) \<le> 1
   \<and> host_pending (snd (stop (snd (run page_env [Start, Frame 16, Start] readme_instance)))) = []"
proof -
  have r: "run page_env [Start, Frame 16, Start] readme_instance =
      (fst (run page_env [Start, Frame 16, Start] readme_instance),
       snd (run page_env [Start, Frame 16, Start] readme_instance))" by simp
  from frame_loop_single_callback[OF readme_constructs r] readme_constructs
  show ?thesis by blast
qed

text \<open>
  C6. A declared uniform that the program has (uniform names are the keys of an object, so
  they are distinct) is seeded in the value-bag with the default of its type: \<open>0\<close> for
  \<open>float\<close> and \<open>int\<close>, as many zeros as components for \<open>vec2\<close>, \<open>vec3\<close>, \<open>vec4\<close>, and
  \<open>null\<close> for \<open>sampler2D\<close>.
\<close>

theorem default_uniform_values:
  assumes "constructor e options = (tr0, Inr s0)" and "opt_uniforms options = Some us"
    and "distinct (map fst us)" and "(name, ty) \<in> set us"
    and "env_getUniformLocation e name = Some loc"
  shows "uniforms s0 name = getDefaultUniformValue ty
       \<and> getDefaultUniformValue Float = Number (Num 0)
       \<and> getDefaultUniformValue Vec2 = Array [Number (Num 0), Number (Num 0)]
       \<and> getDefaultUniformValue Vec3 = Array [Number (Num 0), Number (Num 0), Number (Num 0)]
       \<and> getDefaultUniformValue Vec4 =
           Array [Number (Num 0), Number (Num 0), Number (Num 0), Number (Num 0)]
       \<and> getDefaultUniformValue IntType = Number (Num 0)
       \<and> getDefaultUniformValue Sampler2D = Null"
proof -
  from constructor_uniforms[OF assms(1,2)] obtain b where
    "uniforms s0 = uniforms (snd (registerUniforms e us 0 b))"
    by blast
  with registerUniforms_seeds[OF assms(3,4,5), of 0 b] show ?thesis by simp
qed

text \<open>The same on the page and the options of the README.\<close>

theorem default_uniform_values_witness:
  "constructor page_env readme_options = (readme_trace, Inr readme_instance)
   \<and> opt_uniforms readme_options = Some [(''u_speed'', Float), (''u_unused'', Vec2)]
   \<and> distinct (map fst [(''u_speed'', Float), (''u_unused'', Vec2)])
   \<and> (''u_speed'', Float) \<in> set [(''u_speed'', Float), (''u_unused'', Vec2)]
   \<and> env_getUniformLocation page_env ''u_speed'' = Some 2
   \<and> uniforms readme_instance ''u_speed'' = Number (Num 0)"
proof -
  have h2: "opt_uniforms readme_options = Some [(''u_speed'', Float), (''u_unused'', Vec2)]"
    by (simp add: readme_options_def)
  have h3: "distinct (map fst [(''u_speed'', Float), (''u_unused'', Vec2 :: UniformType)])" by simp
  have h4: "(''u_speed'', Float) \<in> set [(''u_speed'', Float), (''u_unused'', Vec2)]" by simp
  have h5: "env_getUniformLocation page_env ''u_speed'' = Some 2" by (simp add: page_env_def)
  from default_uniform_values[OF readme_constructs h2 h3 h4 h5] readme_constructs h2 h3 h4 h5
  show ?thesis by simp
qed

text \<open>
  C7. When the display size of the canvas differs from its backing-store size,
  \<open>handleResize\<close> sets the backing store to the display size, sets the viewport to the
  drawing-buffer size of the resized canvas, and calls the callback, if there is one, once
  with the display width and height; nothing else changes. When the sizes are equal it
  does nothing.
\<close>

theorem resize_pass:
  "(if width (canvas s) \<noteq> clientWidth (canvas s) \<or> height (canvas s) \<noteq> clientHeight (canvas s)
    then handleResize e callback s =
           (GL (Viewport 0 0
                  (fst (env_drawingBufferSize e (clientWidth (canvas s)) (clientHeight (canvas s))))
                  (snd (env_drawingBufferSize e (clientWidth (canvas s)) (clientHeight (canvas s)))))
              # (if callback then [OnResize (clientWidth (canvas s)) (clientHeight (canvas s))]
                 else []),
            s\<lparr>canvas := (canvas s)\<lparr>width := clientWidth (canvas s),
                                    height := clientHeight (canvas s)\<rparr>\<rparr>)
    else handleResize e callback s = ([], s))"
  by (simp add: handleResize_def Let_def)

text \<open>The same on the page and the options of the README.\<close>

theorem resize_pass_witness:
  "handleResize page_env True
      (readme_instance\<lparr>canvas := \<lparr>clientWidth = 400, clientHeight = 300,
                                   width = 800, height = 600\<rparr>\<rparr>)
     = ([GL (Viewport 0 0 400 300), OnResize 400 300],
        readme_instance\<lparr>canvas := \<lparr>clientWidth = 400, clientHeight = 300,
                                     width = 400, height = 300\<rparr>\<rparr>)
   \<and> handleResize page_env True readme_instance = ([], readme_instance)"
  using resize_pass[of "readme_instance\<lparr>canvas := \<lparr>clientWidth = 400, clientHeight = 300,
                                   width = 800, height = 600\<rparr>\<rparr>" page_env True]
        resize_pass[of readme_instance page_env True]
  by (simp add: readme_instance_def page_env_def)

text \<open>
  C8. Every frame that runs on an instance reached from the constructor issues exactly one
  draw call: in fullscreen mode \<open>drawArrays(TRIANGLES, 0, 3)\<close>, in instanced mode
  \<open>drawArraysInstanced(TRIANGLES, 0, 6, n)\<close> with \<open>n\<close> the \<open>numInstances\<close> of the options.
\<close>

theorem frame_issues_one_draw:
  assumes "constructor e options = (tr0, Inr s0)" and "run e evs s0 = (tr, s)"
    and "host_pending s \<noteq> []"
  shows "filter isDraw (fst (frame e t s)) =
           (if opt_renderMode options = Some Instanced
            then [GL (DrawArraysInstanced TRIANGLES 0 6 (the (opt_numInstances options)))]
            else [GL (DrawArrays TRIANGLES 0 3)])"
proof -
  have "loop_inv (snd (run e evs s0))"
    by (rule loop_inv_run[OF loop_inv_constructor[OF assms(1)]])
  with assms(2) have inv: "loop_inv s" by simp
  from run_static[of e evs s0] assms(2)
  have "renderMode s = renderMode s0" "numInstances s = numInstances s0" by simp_all
  with constructor_fields(1,2)[OF assms(1)]
  have m: "renderMode s = (case opt_renderMode options of Some m \<Rightarrow> m | None \<Rightarrow> Fullscreen)"
    and n: "numInstances s = (if opt_renderMode options = Some Instanced
                           then the (opt_numInstances options) else Num 0)"
    by simp_all
  from inv assms(3) have live: "\<not> isDestroyed s" "program s \<noteq> None"
    by (auto simp: loop_inv_def split: option.splits)
  from assms(3) obtain k ks where pk: "host_pending s = k # ks" by (cases "host_pending s") auto
  have d: "filter isDraw (fst (frame e t s)) =
           (if renderMode s = Fullscreen then [GL (DrawArrays TRIANGLES 0 3)]
            else [GL (DrawArraysInstanced TRIANGLES 0 6 (numInstances s))])"
    using live pk
    by (auto simp: frame_def render_def requestAnimationFrame_def Let_def upload_no_draw
             split: option.splits)
  show ?thesis
    unfolding d using m n
    by (cases "opt_renderMode options"; cases "renderMode s") auto
qed

text \<open>The same on the page and the options of the README.\<close>

theorem frame_issues_one_draw_witness:
  "constructor page_env readme_options = (readme_trace, Inr readme_instance)
   \<and> host_pending (snd (run page_env [Start] readme_instance)) \<noteq> []
   \<and> filter isDraw (fst (frame page_env 16 (snd (run page_env [Start] readme_instance))))
       = [GL (DrawArraysInstanced TRIANGLES 0 6 (Num 3))]"
proof -
  have r: "run page_env [Start] readme_instance =
      (fst (run page_env [Start] readme_instance), snd (run page_env [Start] readme_instance))"
    by simp
  have p: "host_pending (snd (run page_env [Start] readme_instance)) \<noteq> []"
    by (simp add: start_def requestAnimationFrame_def readme_instance_def Let_def)
  from frame_issues_one_draw[OF readme_constructs r p, of 16] readme_constructs p
  show ?thesis by (simp add: readme_options_def)
qed

text \<open>
  C9. For a declared uniform that the program does not have, the constructor still
  succeeds, warns, puts no entry in \<open>uniformInfo\<close> and leaves the value-bag without that
  name. The registry never gains the name later, and a write to it in the value-bag does not
  change what \<open>render\<close> sends.
\<close>

theorem unresolved_uniform_is_inert:
  assumes "constructor e options = (tr0, Inr s0)" and "opt_uniforms options = Some us"
    and "(name, ty) \<in> set us" and "env_getUniformLocation e name = None"
  shows "Warn (UniformNotFound name) \<in> set tr0
       \<and> name \<notin> fst ` set (uniformInfo s0)
       \<and> uniforms s0 name = Undefined
       \<and> (\<forall>evs v t. name \<notin> fst ` set (uniformInfo (snd (run e evs s0)))
             \<and> fst (render e t ((snd (run e evs s0))
                      \<lparr>uniforms := (uniforms (snd (run e evs s0)))(name := v)\<rparr>))
               = fst (render e t (snd (run e evs s0))))"
proof -
  from constructor_uniforms[OF assms(1,2)] obtain b where
    b: "uniforms b = (\<lambda>name. Undefined)" "uniformInfo b = []"
       "uniforms s0 = uniforms (snd (registerUniforms e us 0 b))"
       "uniformInfo s0 = uniformInfo (snd (registerUniforms e us 0 b))"
       "set (fst (registerUniforms e us 0 b)) \<subseteq> set tr0"
    by blast
  from assms(3) have mem: "name \<in> fst ` set us" by force
  note u = registerUniforms_unresolved[OF assms(4), of us 0 b]
  from u mem b(5) have w: "Warn (UniformNotFound name) \<in> set tr0" by blast
  from u b(2,4) have k: "name \<notin> fst ` set (uniformInfo s0)" by simp
  from u b(1,3) have v: "uniforms s0 name = Undefined" by simp
  have "name \<notin> fst ` set (uniformInfo (snd (run e evs s0)))" for evs
    using k run_static[of e evs s0] by simp
  with w k v show ?thesis by (simp add: render_inert)
qed

text \<open>The same on the page and the options of the README.\<close>

theorem unresolved_uniform_is_inert_witness:
  "constructor page_env readme_options = (readme_trace, Inr readme_instance)
   \<and> opt_uniforms readme_options = Some [(''u_speed'', Float), (''u_unused'', Vec2)]
   \<and> (''u_unused'', Vec2) \<in> set [(''u_speed'', Float), (''u_unused'', Vec2)]
   \<and> env_getUniformLocation page_env ''u_unused'' = None
   \<and> Warn (UniformNotFound ''u_unused'') \<in> set readme_trace
   \<and> ''u_unused'' \<notin> fst ` set (uniformInfo readme_instance)
   \<and> uniforms readme_instance ''u_unused'' = Undefined
   \<and> fst (render page_env 16
            ((snd (run page_env [Start] readme_instance))
               \<lparr>uniforms := (uniforms (snd (run page_env [Start] readme_instance)))
                    (''u_unused'' := Array [Number (Num 1), Number (Num 2)])\<rparr>))
       = fst (render page_env 16 (snd (run page_env [Start] readme_instance)))"
proof -
  have h2: "opt_uniforms readme_options = Some [(''u_speed'', Float), (''u_unused'', Vec2)]"
    by (simp add: readme_options_def)
  have h3: "(''u_unused'', Vec2) \<in> set [(''u_speed'', Float), (''u_unused'', Vec2)]" by simp
  have h4: "env_getUniformLocation page_env ''u_unused'' = None" by (simp add: page_env_def)
  from unresolved_uniform_is_inert[OF readme_constructs h2 h3 h4] readme_constructs h2 h3 h4
  show ?thesis by blast
qed

text \<open>
  C10. In instanced mode \<open>numInstances = 0\<close> is rejected with the error of a missing
  \<open>numInstances\<close>, as is every falsy count; an instance that was constructed in instanced
  mode has the non-zero count of its options.
\<close>

theorem zero_instances_rejected:
  assumes "opt_renderMode options = Some Instanced"
  shows "constructor e (options\<lparr>opt_numInstances := Some (Num 0)\<rparr>)
           = ([], Inl NumInstancesRequired)
       \<and> constructor e (options\<lparr>opt_numInstances := None\<rparr>) = ([], Inl NumInstancesRequired)
       \<and> (\<not> truthy_number (opt_numInstances options) \<longrightarrow>
            constructor e options = ([], Inl NumInstancesRequired))
       \<and> (\<forall>tr s. constructor e options = (tr, Inr s) \<longrightarrow>
            opt_numInstances options = Some (numInstances s)
          \<and> numInstances s \<noteq> Num 0 \<and> numInstances s \<noteq> NaN)"
proof -
  have a: "\<not> truthy_number (opt_numInstances o') \<Longrightarrow> opt_renderMode o' = Some Instanced \<Longrightarrow>
        constructor e o' = ([], Inl NumInstancesRequired)" for o'
    by (simp add: constructor_def validateOptions_def)
  have b: "opt_numInstances options = Some (numInstances s)
          \<and> numInstances s \<noteq> Num 0 \<and> numInstances s \<noteq> NaN"
    if c: "constructor e options = (tr, Inr s)" for tr s
  proof -
    from constructor_fields(2,3)[OF c] assms
    have "numInstances s = the (opt_numInstances options)"
      and "truthy_number (opt_numInstances options)" by simp_all
    then show ?thesis
      by (cases "opt_numInstances options" rule: truthy_number.cases) auto
  qed
  from a[of "options\<lparr>opt_numInstances := Some (Num 0)\<rparr>"]
       a[of "options\<lparr>opt_numInstances := None\<rparr>"] a[of options] b assms
  show ?thesis by simp
qed

text \<open>The same on the page and the options of the README.\<close>

theorem zero_instances_rejected_witness:
  "opt_renderMode readme_options = Some Instanced
   \<and> constructor page_env (readme_options\<lparr>opt_numInstances := Some (Num 0)\<rparr>)
        = ([], Inl NumInstancesRequired)
   \<and> constructor page_env (readme_options\<lparr>opt_numInstances := None\<rparr>)
        = ([], Inl NumInstancesRequired)
   \<and> constructor page_env readme_options = (readme_trace, Inr readme_instance)
   \<and> numInstances readme_instance = Num 3"
proof -
  have h: "opt_renderMode readme_options = Some Instanced"
    by (simp add: readme_options_def)
  from zero_instances_rejected[OF h, of page_env] h readme_constructs
  show ?thesis by (simp add: readme_instance_def)
qed
end
